theory Spec2Isabelle
  imports Main
begin

section \<open>The preprocessor state\<close>

text \<open>
  \<^verbatim>\<open>src/tusb_config.h\<close> is a header of preprocessor directives only: it reads the macros
  that the build environment has defined (compiler flags, earlier headers) and defines the
  \<^verbatim>\<open>CFG_*\<close> macros of the USB stack. The header is embedded as a function on the
  preprocessor's state, one combinator per directive.

  A replacement list is kept as the expression it spells. The options
  \<^verbatim>\<open>OPT_MCU_*\<close>, \<^verbatim>\<open>OPT_OS_NONE\<close> and \<^verbatim>\<open>OPT_MODE_DEFAULT_SPEED\<close> are
  macros of the USB stack's own option header, which is not part of this repository; they
  stay symbols.
\<close>

datatype repl =
    Blank
  | Num int
  | Sym string
  | Str string
  | Cond repl repl repl
  | Attribute string repl

text \<open>
  A \<^verbatim>\<open>#define\<close> of a name that is already defined with another replacement list is a
  constraint violation: the compiler reports it and goes on with the new definition. The
  header has no \<^verbatim>\<open>#error\<close> and no \<^verbatim>\<open>#warning\<close>, so this is the only diagnostic it
  can cause.
\<close>

datatype diagnostic = Redefined string

record pp_state =
  macros :: "string \<rightharpoonup> repl"
  diags :: "diagnostic list"

type_synonym directive = "pp_state \<Rightarrow> pp_state"

definition defined :: "string \<Rightarrow> pp_state \<Rightarrow> bool" where
  "defined n s = (macros s n \<noteq> None)"

text \<open>What \<^verbatim>\<open>#define n r\<close> reports: nothing when \<open>n\<close> is new or already stands for \<open>r\<close>.\<close>

definition redefinition :: "string \<Rightarrow> repl \<Rightarrow> pp_state \<Rightarrow> diagnostic list" where
  "redefinition n r s =
     (case macros s n of
        None \<Rightarrow> []
      | Some old \<Rightarrow> if old = r then [] else [Redefined n])"

definition pp_define :: "string \<Rightarrow> repl \<Rightarrow> directive" where
  "pp_define n r s = s\<lparr>macros := (macros s)(n \<mapsto> r), diags := diags s @ redefinition n r s\<rparr>"

text \<open>\<^verbatim>\<open>#if defined(n) a #else b #endif\<close>; an \<^verbatim>\<open>#elif\<close> is a nested one in \<open>b\<close>.\<close>

definition if_defined :: "string \<Rightarrow> directive \<Rightarrow> directive \<Rightarrow> directive" where
  "if_defined n a b s = (if defined n s then a s else b s)"

text \<open>\<^verbatim>\<open>#ifndef n body #endif\<close>\<close>

definition ifndef :: "string \<Rightarrow> directive \<Rightarrow> directive" where
  "ifndef n body s = (if defined n s then s else body s)"

text \<open>Directives one after the other, in the order of the file.\<close>

fun process :: "directive list \<Rightarrow> directive" where
  "process [] s = s"
| "process (d # ds) s = process ds (d s)"

text \<open>
  The value of a replacement list where it is used as an integer expression of C. A symbol
  is a macro to expand; each expansion spends one unit of fuel. A symbol that is no macro,
  a string, an attribute and the empty list are no integer expressions.
\<close>

fun eval_repl :: "nat \<Rightarrow> (string \<rightharpoonup> repl) \<Rightarrow> repl \<Rightarrow> int option" where
  "eval_repl k env Blank = None"
| "eval_repl k env (Num i) = Some i"
| "eval_repl k env (Str x) = None"
| "eval_repl k env (Attribute a r) = None"
| "eval_repl 0 env (Sym x) = None"
| "eval_repl (Suc k) env (Sym x) =
     (case env x of None \<Rightarrow> None | Some r \<Rightarrow> eval_repl k env r)"
| "eval_repl k env (Cond c a b) =
     (case eval_repl k env c of
        None \<Rightarrow> None
      | Some v \<Rightarrow> if v \<noteq> 0 then eval_repl k env a else eval_repl k env b)"

section \<open>The header\<close>

subsection \<open>Common configuration\<close>

text \<open>Lines 13 to 23: the MCU, unless the compiler flags define it.\<close>

definition CFG_TUSB_MCU :: directive where
  "CFG_TUSB_MCU =
     ifndef ''CFG_TUSB_MCU''
       (if_defined ''ARDUINO_ARCH_SAMD'' (pp_define ''CFG_TUSB_MCU'' (Sym ''OPT_MCU_SAMD51''))
       (if_defined ''ARDUINO_ARCH_RP2040'' (pp_define ''CFG_TUSB_MCU'' (Sym ''OPT_MCU_RP2040''))
       (if_defined ''ARDUINO_ARCH_ESP32'' (pp_define ''CFG_TUSB_MCU'' (Sym ''OPT_MCU_ESP32S2''))
         (pp_define ''CFG_TUSB_MCU'' (Sym ''OPT_MCU_NONE'')))))"

text \<open>Lines 25 to 55.\<close>

definition common_configuration :: directive where
  "common_configuration = process
     [CFG_TUSB_MCU,
      ifndef ''CFG_TUSB_OS'' (pp_define ''CFG_TUSB_OS'' (Sym ''OPT_OS_NONE'')),
      ifndef ''CFG_TUSB_DEBUG'' (pp_define ''CFG_TUSB_DEBUG'' (Num 0)),
      pp_define ''CFG_TUD_ENABLED'' (Num 1),
      pp_define ''CFG_TUH_ENABLED'' (Num 1),
      pp_define ''CFG_TUD_MAX_SPEED'' (Sym ''OPT_MODE_DEFAULT_SPEED''),
      ifndef ''CFG_TUSB_MEM_SECTION'' (pp_define ''CFG_TUSB_MEM_SECTION'' Blank),
      ifndef ''CFG_TUSB_MEM_ALIGN''
        (pp_define ''CFG_TUSB_MEM_ALIGN'' (Attribute ''aligned'' (Num 4)))]"

subsection \<open>Device configuration\<close>

text \<open>Lines 65 to 71, under the comment \<^verbatim>\<open>CLASS\<close>.\<close>

definition device_class :: directive where
  "device_class = process
     [pp_define ''CFG_TUD_HID'' (Num 3),
      pp_define ''CFG_TUD_CDC'' (Num 0),
      pp_define ''CFG_TUD_MSC'' (Num 0),
      pp_define ''CFG_TUD_MIDI'' (Num 0),
      pp_define ''CFG_TUD_VENDOR'' (Num 0)]"

definition device_configuration :: directive where
  "device_configuration = process
     [ifndef ''CFG_TUD_ENDPOINT0_SIZE'' (pp_define ''CFG_TUD_ENDPOINT0_SIZE'' (Num 64)),
      device_class,
      pp_define ''CFG_TUD_HID_EP_BUFSIZE'' (Num 64)]"

subsection \<open>Host configuration\<close>

text \<open>Lines 83 to 87: the hub count and the counts of the other host classes.\<close>

definition host_class :: directive where
  "host_class = process
     [pp_define ''CFG_TUH_HUB'' (Num 0),
      pp_define ''CFG_TUH_CDC'' (Num 0),
      pp_define ''CFG_TUH_HID'' (Num 4),
      pp_define ''CFG_TUH_MSC'' (Num 0),
      pp_define ''CFG_TUH_VENDOR'' (Num 0)]"

text \<open>Line 90: the replacement list \<^verbatim>\<open>(CFG_TUH_HUB ? 4 : 1)\<close>.\<close>

definition CFG_TUH_DEVICE_MAX :: repl where
  "CFG_TUH_DEVICE_MAX = Cond (Sym ''CFG_TUH_HUB'') (Num 4) (Num 1)"

definition host_configuration :: directive where
  "host_configuration = process
     [pp_define ''CFG_TUH_ENUMERATION_BUFSIZE'' (Num 256),
      host_class,
      pp_define ''CFG_TUH_DEVICE_MAX'' CFG_TUH_DEVICE_MAX]"

subsection \<open>The whole file\<close>

text \<open>
  The include guard encloses everything. The linkage block for C++
  (\<^verbatim>\<open>#ifdef __cplusplus\<close>) writes program text and defines no macro; it has no part in
  the state.
\<close>

definition tusb_config :: directive where
  "tusb_config =
     ifndef ''_TUSB_CONFIG_H_''
       (process
          [pp_define ''_TUSB_CONFIG_H_'' Blank,
           common_configuration,
           device_configuration,
           host_configuration])"

text \<open>
  The options that the header defines outside any \<^verbatim>\<open>#ifndef\<close>: lines 34, 37, 40,
  66 to 71, 74, 81, 83 to 87 and 90.
\<close>

definition fixed_options :: "string set" where
  "fixed_options =
     {''CFG_TUD_ENABLED'', ''CFG_TUH_ENABLED'', ''CFG_TUD_MAX_SPEED'',
      ''CFG_TUD_HID'', ''CFG_TUD_CDC'', ''CFG_TUD_MSC'', ''CFG_TUD_MIDI'', ''CFG_TUD_VENDOR'',
      ''CFG_TUD_HID_EP_BUFSIZE'',
      ''CFG_TUH_ENUMERATION_BUFSIZE'',
      ''CFG_TUH_HUB'', ''CFG_TUH_CDC'', ''CFG_TUH_HID'', ''CFG_TUH_MSC'', ''CFG_TUH_VENDOR'',
      ''CFG_TUH_DEVICE_MAX''}"

section \<open>Build environments\<close>

text \<open>A build that passes no flag at all.\<close>

definition no_flags :: pp_state where
  "no_flags = \<lparr>macros = Map.empty, diags = []\<rparr>"

text \<open>The compiler flag \<^verbatim>\<open>-Dn=r\<close>; a bare \<^verbatim>\<open>-Dn\<close> stands for \<^verbatim>\<open>-Dn=1\<close>.\<close>

definition flag :: "string \<Rightarrow> repl \<Rightarrow> pp_state \<Rightarrow> pp_state" where
  "flag n r s = s\<lparr>macros := (macros s)(n \<mapsto> r)\<rparr>"

text \<open>A build whose flags define two platform hints and nothing else.\<close>

definition two_hints :: pp_state where
  "two_hints = flag ''ARDUINO_ARCH_SAMD'' (Num 1) (flag ''ARDUINO_ARCH_RP2040'' (Num 1) no_flags)"

section \<open>What a directive does to the state\<close>

lemma macros_pp_define: "macros (pp_define n r s) = (macros s)(n \<mapsto> r)"
  by (simp add: pp_define_def)

lemma diags_pp_define: "diags (pp_define n r s) = diags s @ redefinition n r s"
  by (simp add: pp_define_def)

lemma defined_pp_define: "defined m (pp_define n r s) \<longleftrightarrow> m = n \<or> defined m s"
  by (simp add: defined_def macros_pp_define)

lemma macros_ifndef_define:
  "macros (ifndef n (pp_define n r) s) =
     (macros s)(n \<mapsto> case macros s n of None \<Rightarrow> r | Some v \<Rightarrow> v)"
  by (auto simp: ifndef_def defined_def pp_define_def)

lemma diags_ifndef_define: "diags (ifndef n (pp_define n r) s) = diags s"
  by (auto simp: ifndef_def defined_def pp_define_def redefinition_def)

lemma ifndef_undefined: "macros s n = None \<Longrightarrow> ifndef n body s = body s"
  by (simp add: ifndef_def defined_def)

lemma redefinition_undefined: "macros s n = None \<Longrightarrow> redefinition n r s = []"
  by (simp add: redefinition_def)

lemma redefinition_same_macro:
  "macros s' n = macros s n \<Longrightarrow> redefinition n r s' = redefinition n r s"
  by (simp add: redefinition_def)

lemma redefinition_pp_define:
  "n \<noteq> m \<Longrightarrow> redefinition n r (pp_define m r' s) = redefinition n r s"
  by (rule redefinition_same_macro) (simp add: macros_pp_define)

lemma redefinition_ifndef_define:
  "n \<noteq> m \<Longrightarrow> redefinition n r (ifndef m (pp_define m r') s) = redefinition n r s"
  by (rule redefinition_same_macro) (simp add: macros_ifndef_define)

lemma Redefined_in_redefinition:
  "Redefined m \<in> set (redefinition n r s) \<longleftrightarrow>
     m = n \<and> (\<exists>old. macros s n = Some old \<and> old \<noteq> r)"
  by (cases "macros s n") (auto simp: redefinition_def)

lemma redefinition_subset: "Redefined n \<in> A \<Longrightarrow> set (redefinition n r s) \<subseteq> A"
  by (cases "macros s n") (auto simp: redefinition_def)

section \<open>What each block of the header does\<close>

lemma macros_CFG_TUSB_MCU:
  "macros (CFG_TUSB_MCU s) =
     (macros s)(''CFG_TUSB_MCU'' \<mapsto>
          case macros s ''CFG_TUSB_MCU'' of
            None \<Rightarrow>
              if defined ''ARDUINO_ARCH_SAMD'' s then Sym ''OPT_MCU_SAMD51''
              else if defined ''ARDUINO_ARCH_RP2040'' s then Sym ''OPT_MCU_RP2040''
              else if defined ''ARDUINO_ARCH_ESP32'' s then Sym ''OPT_MCU_ESP32S2''
              else Sym ''OPT_MCU_NONE''
          | Some v \<Rightarrow> v)"
  by (auto simp: CFG_TUSB_MCU_def ifndef_def if_defined_def defined_def pp_define_def)

lemma diags_CFG_TUSB_MCU: "diags (CFG_TUSB_MCU s) = diags s"
  by (auto simp: CFG_TUSB_MCU_def ifndef_def if_defined_def defined_def pp_define_def
      redefinition_def)

lemma redefinition_CFG_TUSB_MCU:
  "n \<noteq> ''CFG_TUSB_MCU'' \<Longrightarrow> redefinition n r (CFG_TUSB_MCU s) = redefinition n r s"
  by (rule redefinition_same_macro) (simp add: macros_CFG_TUSB_MCU)

lemma macros_common_configuration:
  "macros (common_configuration s) =
     (macros s)
       (''CFG_TUSB_MCU'' \<mapsto>
          case macros s ''CFG_TUSB_MCU'' of
            None \<Rightarrow>
              if defined ''ARDUINO_ARCH_SAMD'' s then Sym ''OPT_MCU_SAMD51''
              else if defined ''ARDUINO_ARCH_RP2040'' s then Sym ''OPT_MCU_RP2040''
              else if defined ''ARDUINO_ARCH_ESP32'' s then Sym ''OPT_MCU_ESP32S2''
              else Sym ''OPT_MCU_NONE''
          | Some v \<Rightarrow> v,
        ''CFG_TUSB_OS'' \<mapsto>
          case macros s ''CFG_TUSB_OS'' of None \<Rightarrow> Sym ''OPT_OS_NONE'' | Some v \<Rightarrow> v,
        ''CFG_TUSB_DEBUG'' \<mapsto>
          case macros s ''CFG_TUSB_DEBUG'' of None \<Rightarrow> Num 0 | Some v \<Rightarrow> v,
        ''CFG_TUD_ENABLED'' \<mapsto> Num 1,
        ''CFG_TUH_ENABLED'' \<mapsto> Num 1,
        ''CFG_TUD_MAX_SPEED'' \<mapsto> Sym ''OPT_MODE_DEFAULT_SPEED'',
        ''CFG_TUSB_MEM_SECTION'' \<mapsto>
          case macros s ''CFG_TUSB_MEM_SECTION'' of None \<Rightarrow> Blank | Some v \<Rightarrow> v,
        ''CFG_TUSB_MEM_ALIGN'' \<mapsto>
          case macros s ''CFG_TUSB_MEM_ALIGN'' of
            None \<Rightarrow> Attribute ''aligned'' (Num 4)
          | Some v \<Rightarrow> v)"
  by (simp add: common_configuration_def macros_pp_define macros_ifndef_define
      macros_CFG_TUSB_MCU)

lemma diags_common_configuration:
  "diags (common_configuration s) = diags s @
     redefinition ''CFG_TUD_ENABLED'' (Num 1) s @
     redefinition ''CFG_TUH_ENABLED'' (Num 1) s @
     redefinition ''CFG_TUD_MAX_SPEED'' (Sym ''OPT_MODE_DEFAULT_SPEED'') s"
  by (simp add: common_configuration_def diags_pp_define diags_ifndef_define
      diags_CFG_TUSB_MCU redefinition_pp_define redefinition_ifndef_define
      redefinition_CFG_TUSB_MCU)

lemma redefinition_common_configuration:
  "n \<notin> {''CFG_TUSB_MCU'', ''CFG_TUSB_OS'', ''CFG_TUSB_DEBUG'', ''CFG_TUD_ENABLED'',
         ''CFG_TUH_ENABLED'', ''CFG_TUD_MAX_SPEED'', ''CFG_TUSB_MEM_SECTION'',
         ''CFG_TUSB_MEM_ALIGN''} \<Longrightarrow>
   redefinition n r (common_configuration s) = redefinition n r s"
  by (rule redefinition_same_macro) (simp add: macros_common_configuration)

lemma macros_device_class:
  "macros (device_class s) =
     (macros s)
       (''CFG_TUD_HID'' \<mapsto> Num 3,
        ''CFG_TUD_CDC'' \<mapsto> Num 0,
        ''CFG_TUD_MSC'' \<mapsto> Num 0,
        ''CFG_TUD_MIDI'' \<mapsto> Num 0,
        ''CFG_TUD_VENDOR'' \<mapsto> Num 0)"
  by (simp add: device_class_def macros_pp_define)

lemma diags_device_class:
  "diags (device_class s) = diags s @
     redefinition ''CFG_TUD_HID'' (Num 3) s @
     redefinition ''CFG_TUD_CDC'' (Num 0) s @
     redefinition ''CFG_TUD_MSC'' (Num 0) s @
     redefinition ''CFG_TUD_MIDI'' (Num 0) s @
     redefinition ''CFG_TUD_VENDOR'' (Num 0) s"
  by (simp add: device_class_def diags_pp_define redefinition_pp_define)

lemma redefinition_device_class:
  "n \<notin> {''CFG_TUD_HID'', ''CFG_TUD_CDC'', ''CFG_TUD_MSC'', ''CFG_TUD_MIDI'',
         ''CFG_TUD_VENDOR''} \<Longrightarrow>
   redefinition n r (device_class s) = redefinition n r s"
  by (rule redefinition_same_macro) (simp add: macros_device_class)

lemma macros_device_configuration:
  "macros (device_configuration s) =
     (macros s)
       (''CFG_TUD_ENDPOINT0_SIZE'' \<mapsto>
          case macros s ''CFG_TUD_ENDPOINT0_SIZE'' of None \<Rightarrow> Num 64 | Some v \<Rightarrow> v,
        ''CFG_TUD_HID'' \<mapsto> Num 3,
        ''CFG_TUD_CDC'' \<mapsto> Num 0,
        ''CFG_TUD_MSC'' \<mapsto> Num 0,
        ''CFG_TUD_MIDI'' \<mapsto> Num 0,
        ''CFG_TUD_VENDOR'' \<mapsto> Num 0,
        ''CFG_TUD_HID_EP_BUFSIZE'' \<mapsto> Num 64)"
  by (simp add: device_configuration_def macros_pp_define macros_ifndef_define
      macros_device_class)

lemma diags_device_configuration:
  "diags (device_configuration s) = diags s @
     redefinition ''CFG_TUD_HID'' (Num 3) s @
     redefinition ''CFG_TUD_CDC'' (Num 0) s @
     redefinition ''CFG_TUD_MSC'' (Num 0) s @
     redefinition ''CFG_TUD_MIDI'' (Num 0) s @
     redefinition ''CFG_TUD_VENDOR'' (Num 0) s @
     redefinition ''CFG_TUD_HID_EP_BUFSIZE'' (Num 64) s"
  by (simp add: device_configuration_def diags_pp_define diags_ifndef_define
      diags_device_class redefinition_ifndef_define redefinition_device_class)

lemma redefinition_device_configuration:
  "n \<notin> {''CFG_TUD_ENDPOINT0_SIZE'', ''CFG_TUD_HID'', ''CFG_TUD_CDC'', ''CFG_TUD_MSC'',
         ''CFG_TUD_MIDI'', ''CFG_TUD_VENDOR'', ''CFG_TUD_HID_EP_BUFSIZE''} \<Longrightarrow>
   redefinition n r (device_configuration s) = redefinition n r s"
  by (rule redefinition_same_macro) (simp add: macros_device_configuration)

lemma macros_host_class:
  "macros (host_class s) =
     (macros s)
       (''CFG_TUH_HUB'' \<mapsto> Num 0,
        ''CFG_TUH_CDC'' \<mapsto> Num 0,
        ''CFG_TUH_HID'' \<mapsto> Num 4,
        ''CFG_TUH_MSC'' \<mapsto> Num 0,
        ''CFG_TUH_VENDOR'' \<mapsto> Num 0)"
  by (simp add: host_class_def macros_pp_define)

lemma diags_host_class:
  "diags (host_class s) = diags s @
     redefinition ''CFG_TUH_HUB'' (Num 0) s @
     redefinition ''CFG_TUH_CDC'' (Num 0) s @
     redefinition ''CFG_TUH_HID'' (Num 4) s @
     redefinition ''CFG_TUH_MSC'' (Num 0) s @
     redefinition ''CFG_TUH_VENDOR'' (Num 0) s"
  by (simp add: host_class_def diags_pp_define redefinition_pp_define)

lemma redefinition_host_class:
  "n \<notin> {''CFG_TUH_HUB'', ''CFG_TUH_CDC'', ''CFG_TUH_HID'', ''CFG_TUH_MSC'',
         ''CFG_TUH_VENDOR''} \<Longrightarrow>
   redefinition n r (host_class s) = redefinition n r s"
  by (rule redefinition_same_macro) (simp add: macros_host_class)

lemma macros_host_configuration:
  "macros (host_configuration s) =
     (macros s)
       (''CFG_TUH_ENUMERATION_BUFSIZE'' \<mapsto> Num 256,
        ''CFG_TUH_HUB'' \<mapsto> Num 0,
        ''CFG_TUH_CDC'' \<mapsto> Num 0,
        ''CFG_TUH_HID'' \<mapsto> Num 4,
        ''CFG_TUH_MSC'' \<mapsto> Num 0,
        ''CFG_TUH_VENDOR'' \<mapsto> Num 0,
        ''CFG_TUH_DEVICE_MAX'' \<mapsto> CFG_TUH_DEVICE_MAX)"
  by (simp add: host_configuration_def macros_pp_define macros_host_class)

lemma diags_host_configuration:
  "diags (host_configuration s) = diags s @
     redefinition ''CFG_TUH_ENUMERATION_BUFSIZE'' (Num 256) s @
     redefinition ''CFG_TUH_HUB'' (Num 0) s @
     redefinition ''CFG_TUH_CDC'' (Num 0) s @
     redefinition ''CFG_TUH_HID'' (Num 4) s @
     redefinition ''CFG_TUH_MSC'' (Num 0) s @
     redefinition ''CFG_TUH_VENDOR'' (Num 0) s @
     redefinition ''CFG_TUH_DEVICE_MAX'' CFG_TUH_DEVICE_MAX s"
  by (simp add: host_configuration_def diags_pp_define diags_host_class
      redefinition_pp_define redefinition_host_class)

text \<open>The header from a state in which its guard is not defined: a first inclusion.\<close>

lemma macros_tusb_config:
  assumes "macros s ''_TUSB_CONFIG_H_'' = None"
  shows "macros (tusb_config s) =
     (macros s)
       (''_TUSB_CONFIG_H_'' \<mapsto> Blank,
        ''CFG_TUSB_MCU'' \<mapsto>
          case macros s ''CFG_TUSB_MCU'' of
            None \<Rightarrow>
              if defined ''ARDUINO_ARCH_SAMD'' s then Sym ''OPT_MCU_SAMD51''
              else if defined ''ARDUINO_ARCH_RP2040'' s then Sym ''OPT_MCU_RP2040''
              else if defined ''ARDUINO_ARCH_ESP32'' s then Sym ''OPT_MCU_ESP32S2''
              else Sym ''OPT_MCU_NONE''
          | Some v \<Rightarrow> v,
        ''CFG_TUSB_OS'' \<mapsto>
          case macros s ''CFG_TUSB_OS'' of None \<Rightarrow> Sym ''OPT_OS_NONE'' | Some v \<Rightarrow> v,
        ''CFG_TUSB_DEBUG'' \<mapsto>
          case macros s ''CFG_TUSB_DEBUG'' of None \<Rightarrow> Num 0 | Some v \<Rightarrow> v,
        ''CFG_TUD_ENABLED'' \<mapsto> Num 1,
        ''CFG_TUH_ENABLED'' \<mapsto> Num 1,
        ''CFG_TUD_MAX_SPEED'' \<mapsto> Sym ''OPT_MODE_DEFAULT_SPEED'',
        ''CFG_TUSB_MEM_SECTION'' \<mapsto>
          case macros s ''CFG_TUSB_MEM_SECTION'' of None \<Rightarrow> Blank | Some v \<Rightarrow> v,
        ''CFG_TUSB_MEM_ALIGN'' \<mapsto>
          case macros s ''CFG_TUSB_MEM_ALIGN'' of
            None \<Rightarrow> Attribute ''aligned'' (Num 4)
          | Some v \<Rightarrow> v,
        ''CFG_TUD_ENDPOINT0_SIZE'' \<mapsto>
          case macros s ''CFG_TUD_ENDPOINT0_SIZE'' of None \<Rightarrow> Num 64 | Some v \<Rightarrow> v,
        ''CFG_TUD_HID'' \<mapsto> Num 3,
        ''CFG_TUD_CDC'' \<mapsto> Num 0,
        ''CFG_TUD_MSC'' \<mapsto> Num 0,
        ''CFG_TUD_MIDI'' \<mapsto> Num 0,
        ''CFG_TUD_VENDOR'' \<mapsto> Num 0,
        ''CFG_TUD_HID_EP_BUFSIZE'' \<mapsto> Num 64,
        ''CFG_TUH_ENUMERATION_BUFSIZE'' \<mapsto> Num 256,
        ''CFG_TUH_HUB'' \<mapsto> Num 0,
        ''CFG_TUH_CDC'' \<mapsto> Num 0,
        ''CFG_TUH_HID'' \<mapsto> Num 4,
        ''CFG_TUH_MSC'' \<mapsto> Num 0,
        ''CFG_TUH_VENDOR'' \<mapsto> Num 0,
        ''CFG_TUH_DEVICE_MAX'' \<mapsto> CFG_TUH_DEVICE_MAX)"
  using assms
  by (simp add: tusb_config_def ifndef_undefined macros_host_configuration
      macros_device_configuration macros_common_configuration macros_pp_define
      defined_pp_define)

lemma diags_tusb_config:
  assumes "macros s ''_TUSB_CONFIG_H_'' = None"
  shows "diags (tusb_config s) = diags s @
     redefinition ''CFG_TUD_ENABLED'' (Num 1) s @
     redefinition ''CFG_TUH_ENABLED'' (Num 1) s @
     redefinition ''CFG_TUD_MAX_SPEED'' (Sym ''OPT_MODE_DEFAULT_SPEED'') s @
     redefinition ''CFG_TUD_HID'' (Num 3) s @
     redefinition ''CFG_TUD_CDC'' (Num 0) s @
     redefinition ''CFG_TUD_MSC'' (Num 0) s @
     redefinition ''CFG_TUD_MIDI'' (Num 0) s @
     redefinition ''CFG_TUD_VENDOR'' (Num 0) s @
     redefinition ''CFG_TUD_HID_EP_BUFSIZE'' (Num 64) s @
     redefinition ''CFG_TUH_ENUMERATION_BUFSIZE'' (Num 256) s @
     redefinition ''CFG_TUH_HUB'' (Num 0) s @
     redefinition ''CFG_TUH_CDC'' (Num 0) s @
     redefinition ''CFG_TUH_HID'' (Num 4) s @
     redefinition ''CFG_TUH_MSC'' (Num 0) s @
     redefinition ''CFG_TUH_VENDOR'' (Num 0) s @
     redefinition ''CFG_TUH_DEVICE_MAX'' CFG_TUH_DEVICE_MAX s"
  using assms
  by (simp add: tusb_config_def ifndef_undefined diags_host_configuration
      diags_device_configuration diags_common_configuration diags_pp_define
      redefinition_device_configuration redefinition_common_configuration
      redefinition_pp_define redefinition_undefined)

text \<open>All that the header reports is redefinitions of options it fixes.\<close>

lemma new_diags_tusb_config:
  assumes "macros s ''_TUSB_CONFIG_H_'' = None"
  shows "\<exists>new. diags (tusb_config s) = diags s @ new \<and> set new \<subseteq> Redefined ` fixed_options
           \<and> (\<forall>n. Redefined n \<in> set new \<longrightarrow> defined n s)"
proof (intro exI conjI)
  show "diags (tusb_config s) = diags s @ drop (length (diags s)) (diags (tusb_config s))"
    by (simp add: diags_tusb_config [OF assms])
  show "set (drop (length (diags s)) (diags (tusb_config s))) \<subseteq> Redefined ` fixed_options"
    by (simp add: diags_tusb_config [OF assms] redefinition_subset fixed_options_def)
  show "\<forall>n. Redefined n \<in> set (drop (length (diags s)) (diags (tusb_config s))) \<longrightarrow> defined n s"
    by (auto simp: diags_tusb_config [OF assms] Redefined_in_redefinition defined_def)
qed

section \<open>The derived device capacity\<close>

lemma eval_CFG_TUH_DEVICE_MAX:
  "eval_repl k env CFG_TUH_DEVICE_MAX =
     (case eval_repl k env (Sym ''CFG_TUH_HUB'') of
        None \<Rightarrow> None
      | Some h \<Rightarrow> Some (if h \<noteq> 0 then 4 else 1))"
  by (simp add: CFG_TUH_DEVICE_MAX_def split: option.split)

text \<open>
  C1. Where the hub count resolves to the number \<open>h\<close>, the device capacity is 4 for every
  \<open>h > 0\<close> and 1 for \<open>h = 0\<close>. It is a function of the hub count alone: two environments
  that give the hub count the same value give the capacity the same value, whatever else
  they define.
\<close>

theorem device_capacity_of_hub_count:
  assumes "eval_repl k env (Sym ''CFG_TUH_HUB'') = Some h"
  shows "(0 < h \<longrightarrow> eval_repl k env CFG_TUH_DEVICE_MAX = Some 4)
       \<and> (h = 0 \<longrightarrow> eval_repl k env CFG_TUH_DEVICE_MAX = Some 1)
       \<and> (\<forall>env'. eval_repl k env' (Sym ''CFG_TUH_HUB'') = Some h \<longrightarrow>
            eval_repl k env' CFG_TUH_DEVICE_MAX = eval_repl k env CFG_TUH_DEVICE_MAX)"
  using assms by (simp add: eval_CFG_TUH_DEVICE_MAX)

theorem device_capacity_of_hub_count_witness:
  "eval_repl (Suc 0) [''CFG_TUH_HUB'' \<mapsto> Num 2] CFG_TUH_DEVICE_MAX = Some 4
 \<and> eval_repl (Suc 0) [''CFG_TUH_HUB'' \<mapsto> Num 0] CFG_TUH_DEVICE_MAX = Some 1
 \<and> eval_repl (Suc 0) [''CFG_TUH_HUB'' \<mapsto> Num 2, ''CFG_TUH_HID'' \<mapsto> Num 9] CFG_TUH_DEVICE_MAX
     = eval_repl (Suc 0) [''CFG_TUH_HUB'' \<mapsto> Num 2] CFG_TUH_DEVICE_MAX"
proof -
  have two: "eval_repl (Suc 0) [''CFG_TUH_HUB'' \<mapsto> Num 2] (Sym ''CFG_TUH_HUB'') = Some 2"
    by simp
  have zero: "eval_repl (Suc 0) [''CFG_TUH_HUB'' \<mapsto> Num 0] (Sym ''CFG_TUH_HUB'') = Some 0"
    by simp
  have other:
    "eval_repl (Suc 0) [''CFG_TUH_HUB'' \<mapsto> Num 2, ''CFG_TUH_HID'' \<mapsto> Num 9] (Sym ''CFG_TUH_HUB'')
       = Some 2"
    by simp
  note at_two = device_capacity_of_hub_count [OF two]
  note at_zero = device_capacity_of_hub_count [OF zero]
  from at_two have "eval_repl (Suc 0) [''CFG_TUH_HUB'' \<mapsto> Num 2] CFG_TUH_DEVICE_MAX = Some 4"
    by simp
  moreover from at_zero
  have "eval_repl (Suc 0) [''CFG_TUH_HUB'' \<mapsto> Num 0] CFG_TUH_DEVICE_MAX = Some 1"
    by simp
  moreover from at_two other
  have "eval_repl (Suc 0) [''CFG_TUH_HUB'' \<mapsto> Num 2, ''CFG_TUH_HID'' \<mapsto> Num 9] CFG_TUH_DEVICE_MAX
          = eval_repl (Suc 0) [''CFG_TUH_HUB'' \<mapsto> Num 2] CFG_TUH_DEVICE_MAX"
    by blast
  ultimately show ?thesis by blast
qed

section \<open>Options with a default\<close>

text \<open>
  C2. For each of the six options that the header defines under \<^verbatim>\<open>#ifndef\<close> (the MCU,
  the OS, the debug level, the memory section, the memory alignment, the size of endpoint 0):
  where the build environment defines the option, the header leaves that definition as it
  is and reports nothing about it. Any other environment that defines the option in the same
  way, whatever its platform hints, resolves it to the same value.
\<close>

theorem override_wins:
  assumes "macros s ''_TUSB_CONFIG_H_'' = None"
    and "n \<in> {''CFG_TUSB_MCU'', ''CFG_TUSB_OS'', ''CFG_TUSB_DEBUG'', ''CFG_TUSB_MEM_SECTION'',
              ''CFG_TUSB_MEM_ALIGN'', ''CFG_TUD_ENDPOINT0_SIZE''}"
    and "macros s n = Some v"
  shows "macros (tusb_config s) n = Some v
       \<and> (\<exists>new. diags (tusb_config s) = diags s @ new \<and> Redefined n \<notin> set new)
       \<and> (\<forall>s'. macros s' ''_TUSB_CONFIG_H_'' = None \<and> macros s' n = Some v \<longrightarrow>
             macros (tusb_config s') n = macros (tusb_config s) n)"
proof -
  have kept: "macros (tusb_config t) n = Some v"
    if guard: "macros t ''_TUSB_CONFIG_H_'' = None" and given: "macros t n = Some v" for t
  proof -
    from assms(2) have "n = ''CFG_TUSB_MCU'' \<or> n = ''CFG_TUSB_OS'' \<or> n = ''CFG_TUSB_DEBUG''
      \<or> n = ''CFG_TUSB_MEM_SECTION'' \<or> n = ''CFG_TUSB_MEM_ALIGN''
      \<or> n = ''CFG_TUD_ENDPOINT0_SIZE''"
      by (simp only: insert_iff empty_iff simp_thms)
    then show ?thesis
      using given by (elim disjE) (simp_all add: macros_tusb_config [OF guard])
  qed
  have "n \<notin> fixed_options"
    using assms(2) unfolding fixed_options_def insert_iff empty_iff by (elim disjE) simp_all
  moreover obtain new where "diags (tusb_config s) = diags s @ new"
    and "set new \<subseteq> Redefined ` fixed_options"
    using new_diags_tusb_config [OF assms(1)] by (elim exE conjE)
  ultimately have "\<exists>new. diags (tusb_config s) = diags s @ new \<and> Redefined n \<notin> set new"
    by (intro exI [of _ new]) auto
  with kept assms(1,3) show ?thesis by simp
qed


text \<open>
  The MCU given by a flag, with the SAMD hint defined as well: the flag stands.
\<close>

theorem override_wins_witness:
  "macros (flag ''ARDUINO_ARCH_SAMD'' (Num 1) (flag ''CFG_TUSB_MCU'' (Sym ''OPT_MCU_RP2040'') no_flags))
     ''_TUSB_CONFIG_H_'' = None
 \<and> defined ''ARDUINO_ARCH_SAMD''
     (flag ''ARDUINO_ARCH_SAMD'' (Num 1) (flag ''CFG_TUSB_MCU'' (Sym ''OPT_MCU_RP2040'') no_flags))
 \<and> macros (tusb_config
      (flag ''ARDUINO_ARCH_SAMD'' (Num 1) (flag ''CFG_TUSB_MCU'' (Sym ''OPT_MCU_RP2040'') no_flags)))
     ''CFG_TUSB_MCU'' = Some (Sym ''OPT_MCU_RP2040'')"
proof -
  have guard:
    "macros (flag ''ARDUINO_ARCH_SAMD'' (Num 1) (flag ''CFG_TUSB_MCU'' (Sym ''OPT_MCU_RP2040'') no_flags))
       ''_TUSB_CONFIG_H_'' = None"
    by (simp add: flag_def no_flags_def)
  have given:
    "macros (flag ''ARDUINO_ARCH_SAMD'' (Num 1) (flag ''CFG_TUSB_MCU'' (Sym ''OPT_MCU_RP2040'') no_flags))
       ''CFG_TUSB_MCU'' = Some (Sym ''OPT_MCU_RP2040'')"
    by (simp add: flag_def no_flags_def)
  have hint:
    "defined ''ARDUINO_ARCH_SAMD''
       (flag ''ARDUINO_ARCH_SAMD'' (Num 1) (flag ''CFG_TUSB_MCU'' (Sym ''OPT_MCU_RP2040'') no_flags))"
    by (simp add: defined_def flag_def no_flags_def)
  have name: "''CFG_TUSB_MCU'' \<in> {''CFG_TUSB_MCU'', ''CFG_TUSB_OS'', ''CFG_TUSB_DEBUG'',
      ''CFG_TUSB_MEM_SECTION'', ''CFG_TUSB_MEM_ALIGN'', ''CFG_TUD_ENDPOINT0_SIZE''}"
    by simp
  note at_flags = override_wins [OF guard name given]
  from at_flags have
    "macros (tusb_config
       (flag ''ARDUINO_ARCH_SAMD'' (Num 1) (flag ''CFG_TUSB_MCU'' (Sym ''OPT_MCU_RP2040'') no_flags)))
      ''CFG_TUSB_MCU'' = Some (Sym ''OPT_MCU_RP2040'')"
    by (rule conjunct1)
  with guard hint show ?thesis by (intro conjI)
qed

text \<open>
  C3. Where the build environment does not define the MCU, the header defines it from the
  platform hints: the SAMD hint gives the SAMD51 option, the RP2040 hint the RP2040 option,
  the ESP32 hint the ESP32S2 option, each where no hint earlier in this order is defined.
  Where no hint is defined the MCU is the option for no MCU. No case reports anything about
  the MCU.
\<close>

theorem platform_from_hint:
  assumes "macros s ''_TUSB_CONFIG_H_'' = None"
    and "macros s ''CFG_TUSB_MCU'' = None"
  shows "(defined ''ARDUINO_ARCH_SAMD'' s \<longrightarrow>
            macros (tusb_config s) ''CFG_TUSB_MCU'' = Some (Sym ''OPT_MCU_SAMD51''))
       \<and> (\<not> defined ''ARDUINO_ARCH_SAMD'' s \<and> defined ''ARDUINO_ARCH_RP2040'' s \<longrightarrow>
            macros (tusb_config s) ''CFG_TUSB_MCU'' = Some (Sym ''OPT_MCU_RP2040''))
       \<and> (\<not> defined ''ARDUINO_ARCH_SAMD'' s \<and> \<not> defined ''ARDUINO_ARCH_RP2040'' s
            \<and> defined ''ARDUINO_ARCH_ESP32'' s \<longrightarrow>
            macros (tusb_config s) ''CFG_TUSB_MCU'' = Some (Sym ''OPT_MCU_ESP32S2''))
       \<and> (\<not> defined ''ARDUINO_ARCH_SAMD'' s \<and> \<not> defined ''ARDUINO_ARCH_RP2040'' s
            \<and> \<not> defined ''ARDUINO_ARCH_ESP32'' s \<longrightarrow>
            macros (tusb_config s) ''CFG_TUSB_MCU'' = Some (Sym ''OPT_MCU_NONE''))
       \<and> (\<exists>new. diags (tusb_config s) = diags s @ new \<and> Redefined ''CFG_TUSB_MCU'' \<notin> set new)"
proof -
  have "''CFG_TUSB_MCU'' \<notin> fixed_options"
    by (simp add: fixed_options_def)
  moreover obtain new where "diags (tusb_config s) = diags s @ new"
    and "set new \<subseteq> Redefined ` fixed_options"
    using new_diags_tusb_config [OF assms(1)] by (elim exE conjE)
  ultimately
  have "\<exists>new. diags (tusb_config s) = diags s @ new \<and> Redefined ''CFG_TUSB_MCU'' \<notin> set new"
    by (intro exI [of _ new]) auto
  moreover have "macros (tusb_config s) ''CFG_TUSB_MCU'' =
      Some (if defined ''ARDUINO_ARCH_SAMD'' s then Sym ''OPT_MCU_SAMD51''
            else if defined ''ARDUINO_ARCH_RP2040'' s then Sym ''OPT_MCU_RP2040''
            else if defined ''ARDUINO_ARCH_ESP32'' s then Sym ''OPT_MCU_ESP32S2''
            else Sym ''OPT_MCU_NONE'')"
    using assms(2) by (simp add: macros_tusb_config [OF assms(1)])
  ultimately show ?thesis
    by simp
qed

text \<open>
  A build with no flag at all, and one with the RP2040 hint alone.
\<close>

theorem platform_from_hint_witness:
  "macros no_flags ''_TUSB_CONFIG_H_'' = None
 \<and> macros no_flags ''CFG_TUSB_MCU'' = None
 \<and> \<not> defined ''ARDUINO_ARCH_SAMD'' no_flags
 \<and> \<not> defined ''ARDUINO_ARCH_RP2040'' no_flags
 \<and> \<not> defined ''ARDUINO_ARCH_ESP32'' no_flags
 \<and> macros (tusb_config no_flags) ''CFG_TUSB_MCU'' = Some (Sym ''OPT_MCU_NONE'')
 \<and> macros (tusb_config (flag ''ARDUINO_ARCH_RP2040'' (Num 1) no_flags)) ''CFG_TUSB_MCU''
     = Some (Sym ''OPT_MCU_RP2040'')"
proof -
  have none: "macros no_flags n = None" for n
    by (simp add: no_flags_def)
  have hints: "\<not> defined n no_flags" for n
    by (simp add: defined_def no_flags_def)
  have guard: "macros (flag ''ARDUINO_ARCH_RP2040'' (Num 1) no_flags) ''_TUSB_CONFIG_H_'' = None"
    and mcu: "macros (flag ''ARDUINO_ARCH_RP2040'' (Num 1) no_flags) ''CFG_TUSB_MCU'' = None"
    and samd: "\<not> defined ''ARDUINO_ARCH_SAMD'' (flag ''ARDUINO_ARCH_RP2040'' (Num 1) no_flags)"
    and rp: "defined ''ARDUINO_ARCH_RP2040'' (flag ''ARDUINO_ARCH_RP2040'' (Num 1) no_flags)"
    by (simp_all add: defined_def flag_def no_flags_def)
  from platform_from_hint [OF none none]
  have "macros (tusb_config no_flags) ''CFG_TUSB_MCU'' = Some (Sym ''OPT_MCU_NONE'')"
    by (simp add: hints)
  moreover from platform_from_hint [OF guard mcu]
  have "macros (tusb_config (flag ''ARDUINO_ARCH_RP2040'' (Num 1) no_flags)) ''CFG_TUSB_MCU''
          = Some (Sym ''OPT_MCU_RP2040'')"
    by (simp add: samd rp)
  ultimately show ?thesis
    by (simp add: none hints)
qed

text \<open>
  C7. The size of endpoint 0 is 64 where the build environment does not define it, and is
  what the build environment defines (8, for one) where it does.
\<close>

theorem endpoint0_size:
  assumes "macros s ''_TUSB_CONFIG_H_'' = None"
  shows "(macros s ''CFG_TUD_ENDPOINT0_SIZE'' = None \<longrightarrow>
            macros (tusb_config s) ''CFG_TUD_ENDPOINT0_SIZE'' = Some (Num 64))
       \<and> (\<forall>v. macros s ''CFG_TUD_ENDPOINT0_SIZE'' = Some v \<longrightarrow>
            macros (tusb_config s) ''CFG_TUD_ENDPOINT0_SIZE'' = Some v)"
  by (simp add: macros_tusb_config [OF assms])

text \<open>
  No flag gives 64; the flag for 8 gives 8.
\<close>

theorem endpoint0_size_witness:
  "macros no_flags ''_TUSB_CONFIG_H_'' = None
 \<and> macros (tusb_config no_flags) ''CFG_TUD_ENDPOINT0_SIZE'' = Some (Num 64)
 \<and> macros (flag ''CFG_TUD_ENDPOINT0_SIZE'' (Num 8) no_flags) ''_TUSB_CONFIG_H_'' = None
 \<and> macros (tusb_config (flag ''CFG_TUD_ENDPOINT0_SIZE'' (Num 8) no_flags))
     ''CFG_TUD_ENDPOINT0_SIZE'' = Some (Num 8)"
proof -
  have none: "macros no_flags n = None" for n
    by (simp add: no_flags_def)
  have guard: "macros (flag ''CFG_TUD_ENDPOINT0_SIZE'' (Num 8) no_flags) ''_TUSB_CONFIG_H_'' = None"
    and eight: "macros (flag ''CFG_TUD_ENDPOINT0_SIZE'' (Num 8) no_flags) ''CFG_TUD_ENDPOINT0_SIZE''
                 = Some (Num 8)"
    by (simp_all add: flag_def no_flags_def)
  from endpoint0_size [OF none]
  have "macros (tusb_config no_flags) ''CFG_TUD_ENDPOINT0_SIZE'' = Some (Num 64)"
    by (simp add: none)
  moreover from endpoint0_size [OF guard]
  have "macros (tusb_config (flag ''CFG_TUD_ENDPOINT0_SIZE'' (Num 8) no_flags))
          ''CFG_TUD_ENDPOINT0_SIZE'' = Some (Num 8)"
    by (simp add: eight)
  ultimately show ?thesis
    by (simp add: none guard)
qed

text \<open>
  C8. Where the build environment defines none of them, the OS is the option for no OS, the
  debug level is 0, the memory section is the empty replacement list, and the memory
  alignment is the attribute \<^verbatim>\<open>aligned(4)\<close>.
\<close>

theorem defaults_without_override:
  assumes "macros s ''_TUSB_CONFIG_H_'' = None"
  shows "(macros s ''CFG_TUSB_OS'' = None \<longrightarrow>
            macros (tusb_config s) ''CFG_TUSB_OS'' = Some (Sym ''OPT_OS_NONE''))
       \<and> (macros s ''CFG_TUSB_DEBUG'' = None \<longrightarrow>
            macros (tusb_config s) ''CFG_TUSB_DEBUG'' = Some (Num 0))
       \<and> (macros s ''CFG_TUSB_MEM_SECTION'' = None \<longrightarrow>
            macros (tusb_config s) ''CFG_TUSB_MEM_SECTION'' = Some Blank)
       \<and> (macros s ''CFG_TUSB_MEM_ALIGN'' = None \<longrightarrow>
            macros (tusb_config s) ''CFG_TUSB_MEM_ALIGN'' = Some (Attribute ''aligned'' (Num 4)))"
  by (simp add: macros_tusb_config [OF assms])

text \<open>
  All four defaults in a build with no flag at all.
\<close>

theorem defaults_without_override_witness:
  "macros no_flags ''_TUSB_CONFIG_H_'' = None
 \<and> macros (tusb_config no_flags) ''CFG_TUSB_OS'' = Some (Sym ''OPT_OS_NONE'')
 \<and> macros (tusb_config no_flags) ''CFG_TUSB_DEBUG'' = Some (Num 0)
 \<and> macros (tusb_config no_flags) ''CFG_TUSB_MEM_SECTION'' = Some Blank
 \<and> macros (tusb_config no_flags) ''CFG_TUSB_MEM_ALIGN'' = Some (Attribute ''aligned'' (Num 4))"
proof -
  have none: "macros no_flags n = None" for n
    by (simp add: no_flags_def)
  from defaults_without_override [OF none] show ?thesis
    by (simp add: none)
qed

section \<open>Options without an override\<close>

text \<open>
  C4. The device stack and the host stack are both enabled, whatever the build environment
  defines: the two definitions stand outside any \<^verbatim>\<open>#ifndef\<close>, so a flag that gives
  one of them another value is reported as redefined and replaced by 1.
\<close>

theorem role_flags_fixed:
  assumes "macros s ''_TUSB_CONFIG_H_'' = None"
  shows "macros (tusb_config s) ''CFG_TUD_ENABLED'' = Some (Num 1)
       \<and> macros (tusb_config s) ''CFG_TUH_ENABLED'' = Some (Num 1)
       \<and> (\<forall>v. macros s ''CFG_TUD_ENABLED'' = Some v \<and> v \<noteq> Num 1 \<longrightarrow>
             Redefined ''CFG_TUD_ENABLED'' \<in> set (diags (tusb_config s)))
       \<and> (\<forall>v. macros s ''CFG_TUH_ENABLED'' = Some v \<and> v \<noteq> Num 1 \<longrightarrow>
             Redefined ''CFG_TUH_ENABLED'' \<in> set (diags (tusb_config s)))"
proof -
  have "macros (tusb_config s) ''CFG_TUD_ENABLED'' = Some (Num 1)"
    and "macros (tusb_config s) ''CFG_TUH_ENABLED'' = Some (Num 1)"
    by (simp_all add: macros_tusb_config [OF assms])
  moreover have "Redefined ''CFG_TUD_ENABLED'' \<in> set (diags (tusb_config s))"
    if "macros s ''CFG_TUD_ENABLED'' = Some v" and "v \<noteq> Num 1" for v
    using that by (simp add: diags_tusb_config [OF assms] Redefined_in_redefinition)
  moreover have "Redefined ''CFG_TUH_ENABLED'' \<in> set (diags (tusb_config s))"
    if "macros s ''CFG_TUH_ENABLED'' = Some v" and "v \<noteq> Num 1" for v
    using that by (simp add: diags_tusb_config [OF assms] Redefined_in_redefinition)
  ultimately show ?thesis
    by simp
qed

text \<open>
  Both flags given as 0 by the build: both are 1 after the header.
\<close>

theorem role_flags_fixed_witness:
  "macros (flag ''CFG_TUD_ENABLED'' (Num 0) (flag ''CFG_TUH_ENABLED'' (Num 0) no_flags))
     ''_TUSB_CONFIG_H_'' = None
 \<and> macros (flag ''CFG_TUD_ENABLED'' (Num 0) (flag ''CFG_TUH_ENABLED'' (Num 0) no_flags))
     ''CFG_TUD_ENABLED'' = Some (Num 0)
 \<and> macros (tusb_config (flag ''CFG_TUD_ENABLED'' (Num 0) (flag ''CFG_TUH_ENABLED'' (Num 0) no_flags)))
     ''CFG_TUD_ENABLED'' = Some (Num 1)
 \<and> macros (tusb_config (flag ''CFG_TUD_ENABLED'' (Num 0) (flag ''CFG_TUH_ENABLED'' (Num 0) no_flags)))
     ''CFG_TUH_ENABLED'' = Some (Num 1)
 \<and> Redefined ''CFG_TUD_ENABLED'' \<in> set (diags (tusb_config
      (flag ''CFG_TUD_ENABLED'' (Num 0) (flag ''CFG_TUH_ENABLED'' (Num 0) no_flags))))"
proof -
  have guard:
    "macros (flag ''CFG_TUD_ENABLED'' (Num 0) (flag ''CFG_TUH_ENABLED'' (Num 0) no_flags))
       ''_TUSB_CONFIG_H_'' = None"
    and off:
    "macros (flag ''CFG_TUD_ENABLED'' (Num 0) (flag ''CFG_TUH_ENABLED'' (Num 0) no_flags))
       ''CFG_TUD_ENABLED'' = Some (Num 0)"
    by (simp_all add: flag_def no_flags_def)
  from role_flags_fixed [OF guard] show ?thesis
    by (simp add: guard off)
qed

text \<open>
  C10. The header also defines the maximum speed of the device stack, as the option for the
  default speed of the controller, outside any \<^verbatim>\<open>#ifndef\<close>: it has that value whatever
  the build environment defines.
\<close>

theorem max_speed_fixed:
  assumes "macros s ''_TUSB_CONFIG_H_'' = None"
  shows "macros (tusb_config s) ''CFG_TUD_MAX_SPEED'' = Some (Sym ''OPT_MODE_DEFAULT_SPEED'')"
  by (simp add: macros_tusb_config [OF assms])

text \<open>
  A flag for the full speed does not stand.
\<close>

theorem max_speed_fixed_witness:
  "macros (flag ''CFG_TUD_MAX_SPEED'' (Sym ''OPT_MODE_FULL_SPEED'') no_flags) ''_TUSB_CONFIG_H_''
     = None
 \<and> macros (tusb_config (flag ''CFG_TUD_MAX_SPEED'' (Sym ''OPT_MODE_FULL_SPEED'') no_flags))
     ''CFG_TUD_MAX_SPEED'' = Some (Sym ''OPT_MODE_DEFAULT_SPEED'')"
proof -
  have guard:
    "macros (flag ''CFG_TUD_MAX_SPEED'' (Sym ''OPT_MODE_FULL_SPEED'') no_flags) ''_TUSB_CONFIG_H_''
       = None"
    by (simp add: flag_def no_flags_def)
  from max_speed_fixed [OF guard] guard show ?thesis
    by simp
qed

text \<open>
  C9. The hub count is 0, and so the device capacity evaluates to 1; two expansions (of the
  capacity, then of the hub count) are enough. This holds for every build environment, the
  one with no flag among them.
\<close>

theorem default_device_capacity:
  assumes "macros s ''_TUSB_CONFIG_H_'' = None"
  shows "macros (tusb_config s) ''CFG_TUH_HUB'' = Some (Num 0)
       \<and> eval_repl (Suc (Suc k)) (macros (tusb_config s)) (Sym ''CFG_TUH_HUB'') = Some 0
       \<and> eval_repl (Suc (Suc k)) (macros (tusb_config s)) (Sym ''CFG_TUH_DEVICE_MAX'') = Some 1"
proof -
  have hub: "macros (tusb_config s) ''CFG_TUH_HUB'' = Some (Num 0)"
    and cap: "macros (tusb_config s) ''CFG_TUH_DEVICE_MAX'' = Some CFG_TUH_DEVICE_MAX"
    by (simp_all add: macros_tusb_config [OF assms])
  have count: "eval_repl (Suc j) (macros (tusb_config s)) (Sym ''CFG_TUH_HUB'') = Some 0" for j
    by (simp add: hub)
  have "eval_repl (Suc (Suc k)) (macros (tusb_config s)) (Sym ''CFG_TUH_DEVICE_MAX'')
          = eval_repl (Suc k) (macros (tusb_config s)) CFG_TUH_DEVICE_MAX"
    by (simp add: cap)
  also have "\<dots> = Some 1"
    by (simp add: eval_CFG_TUH_DEVICE_MAX hub)
  finally show ?thesis
    using hub count by simp
qed

text \<open>
  The build with no flag at all.
\<close>

theorem default_device_capacity_witness:
  "macros no_flags ''_TUSB_CONFIG_H_'' = None
 \<and> macros (tusb_config no_flags) ''CFG_TUH_HUB'' = Some (Num 0)
 \<and> eval_repl (Suc (Suc 0)) (macros (tusb_config no_flags)) (Sym ''CFG_TUH_DEVICE_MAX'') = Some 1"
proof -
  have none: "macros no_flags n = None" for n
    by (simp add: no_flags_def)
  from default_device_capacity [OF none, of 0] none show ?thesis
    by simp
qed

section \<open>The limits of the device and the host stack\<close>

lemma dom_device_class:
  "dom (macros (device_class s)) = dom (macros s) \<union>
     {''CFG_TUD_HID'', ''CFG_TUD_CDC'', ''CFG_TUD_MSC'', ''CFG_TUD_MIDI'', ''CFG_TUD_VENDOR''}"
  by (simp add: macros_device_class insert_commute)

lemma dom_host_class:
  "dom (macros (host_class s)) = dom (macros s) \<union>
     {''CFG_TUH_HUB'', ''CFG_TUH_CDC'', ''CFG_TUH_HID'', ''CFG_TUH_MSC'', ''CFG_TUH_VENDOR''}"
  by (simp add: macros_host_class insert_commute)

lemma device_class_names:
  "dom (macros (device_class no_flags)) =
     {''CFG_TUD_HID'', ''CFG_TUD_CDC'', ''CFG_TUD_MSC'', ''CFG_TUD_MIDI'', ''CFG_TUD_VENDOR''}"
  by (simp add: dom_device_class) (simp add: no_flags_def)

lemma host_class_names:
  "dom (macros (host_class no_flags)) =
     {''CFG_TUH_HUB'', ''CFG_TUH_CDC'', ''CFG_TUH_HID'', ''CFG_TUH_MSC'', ''CFG_TUH_VENDOR''}"
  by (simp add: dom_host_class) (simp add: no_flags_def)

lemma card_device_class: "card (dom (macros (device_class no_flags))) = 5"
  by (simp add: device_class_names)

lemma card_host_class: "card (dom (macros (host_class no_flags)) - {''CFG_TUH_HUB''}) = 4"
  by (simp add: host_class_names)

text \<open>
  C5, as stated, counts four class limits for the device stack and three class limits
  besides the hub for the host stack. The header defines five and four.
\<close>

theorem class_counts_counterexample:
  "card (dom (macros (device_class no_flags))) \<noteq> 4
 \<and> card (dom (macros (host_class no_flags)) - {''CFG_TUH_HUB''}) \<noteq> 3"
  by (simp add: card_device_class card_host_class)

text \<open>
  C5, amended. For the device stack the header defines one size of endpoint 0, five class
  counts (HID, CDC, MSC, MIDI, vendor) and one size of the HID buffer; for the host stack
  one size of the enumeration buffer, one hub count, four counts of other classes (CDC, HID,
  MSC, vendor) and one device capacity, which is the replacement list over the hub count.
\<close>

theorem exposed_limits:
  "dom (macros (device_configuration s)) =
     dom (macros s) \<union>
       ({''CFG_TUD_ENDPOINT0_SIZE''} \<union> dom (macros (device_class no_flags))
          \<union> {''CFG_TUD_HID_EP_BUFSIZE''})
 \<and> dom (macros (device_class no_flags)) =
     {''CFG_TUD_HID'', ''CFG_TUD_CDC'', ''CFG_TUD_MSC'', ''CFG_TUD_MIDI'', ''CFG_TUD_VENDOR''}
 \<and> card (dom (macros (device_class no_flags))) = 5
 \<and> dom (macros (host_configuration s)) =
     dom (macros s) \<union>
       ({''CFG_TUH_ENUMERATION_BUFSIZE''} \<union> dom (macros (host_class no_flags))
          \<union> {''CFG_TUH_DEVICE_MAX''})
 \<and> dom (macros (host_class no_flags)) =
     {''CFG_TUH_HUB'', ''CFG_TUH_CDC'', ''CFG_TUH_HID'', ''CFG_TUH_MSC'', ''CFG_TUH_VENDOR''}
 \<and> card (dom (macros (host_class no_flags)) - {''CFG_TUH_HUB''}) = 4
 \<and> macros (host_configuration s) ''CFG_TUH_DEVICE_MAX'' = Some CFG_TUH_DEVICE_MAX"
proof -
  have "dom (macros (device_configuration s)) =
     dom (macros s) \<union>
       ({''CFG_TUD_ENDPOINT0_SIZE''} \<union> dom (macros (device_class no_flags))
          \<union> {''CFG_TUD_HID_EP_BUFSIZE''})"
    by (simp add: device_class_names macros_device_configuration insert_commute)
  moreover have "dom (macros (host_configuration s)) =
     dom (macros s) \<union>
       ({''CFG_TUH_ENUMERATION_BUFSIZE''} \<union> dom (macros (host_class no_flags))
          \<union> {''CFG_TUH_DEVICE_MAX''})"
    by (simp add: host_class_names macros_host_configuration insert_commute)
  moreover have "macros (host_configuration s) ''CFG_TUH_DEVICE_MAX'' = Some CFG_TUH_DEVICE_MAX"
    by (simp add: macros_host_configuration)
  ultimately show ?thesis
    using device_class_names host_class_names card_device_class card_host_class
    by (intro conjI)
qed

text \<open>
  The two stacks in a build with no flag at all: seven names each.
\<close>

theorem exposed_limits_witness:
  "dom (macros (device_configuration no_flags)) =
     {''CFG_TUD_ENDPOINT0_SIZE'', ''CFG_TUD_HID'', ''CFG_TUD_CDC'', ''CFG_TUD_MSC'',
      ''CFG_TUD_MIDI'', ''CFG_TUD_VENDOR'', ''CFG_TUD_HID_EP_BUFSIZE''}
 \<and> dom (macros (host_configuration no_flags)) =
     {''CFG_TUH_ENUMERATION_BUFSIZE'', ''CFG_TUH_HUB'', ''CFG_TUH_CDC'', ''CFG_TUH_HID'',
      ''CFG_TUH_MSC'', ''CFG_TUH_VENDOR'', ''CFG_TUH_DEVICE_MAX''}"
proof -
  have empty: "dom (macros no_flags) = {}"
    by (simp add: no_flags_def)
  note limits = exposed_limits [of no_flags]
  from limits have "dom (macros (device_configuration no_flags)) =
     {''CFG_TUD_ENDPOINT0_SIZE'', ''CFG_TUD_HID'', ''CFG_TUD_CDC'', ''CFG_TUD_MSC'',
      ''CFG_TUD_MIDI'', ''CFG_TUD_VENDOR'', ''CFG_TUD_HID_EP_BUFSIZE''}"
    by (simp add: empty insert_commute)
  moreover from limits have "dom (macros (host_configuration no_flags)) =
     {''CFG_TUH_ENUMERATION_BUFSIZE'', ''CFG_TUH_HUB'', ''CFG_TUH_CDC'', ''CFG_TUH_HID'',
      ''CFG_TUH_MSC'', ''CFG_TUH_VENDOR'', ''CFG_TUH_DEVICE_MAX''}"
    by (simp add: empty insert_commute)
  ultimately show ?thesis
    by (rule conjI)
qed

section \<open>More than one platform hint\<close>

lemma two_hints_macros:
  "macros two_hints n =
     (if n = ''ARDUINO_ARCH_SAMD'' \<or> n = ''ARDUINO_ARCH_RP2040'' then Some (Num 1) else None)"
  by (simp add: two_hints_def flag_def no_flags_def)

lemma two_hints_diags: "diags two_hints = []"
  by (simp add: two_hints_def flag_def no_flags_def)

text \<open>
  C6, as stated, has the header report a build in which more than one platform hint is
  defined. With the SAMD and the RP2040 hint both defined and no MCU given, the header
  reports nothing and takes the SAMD51 option.
\<close>

theorem hint_conflict_counterexample:
  "defined ''ARDUINO_ARCH_SAMD'' two_hints
 \<and> defined ''ARDUINO_ARCH_RP2040'' two_hints
 \<and> \<not> defined ''CFG_TUSB_MCU'' two_hints
 \<and> macros (tusb_config two_hints) ''CFG_TUSB_MCU'' = Some (Sym ''OPT_MCU_SAMD51'')
 \<and> diags (tusb_config two_hints) = []"
proof -
  have guard: "macros two_hints ''_TUSB_CONFIG_H_'' = None"
    by (simp add: two_hints_macros)
  have "diags (tusb_config two_hints) = []"
    by (simp add: diags_tusb_config [OF guard] two_hints_diags redefinition_undefined
        two_hints_macros)
  moreover have "macros (tusb_config two_hints) ''CFG_TUSB_MCU'' = Some (Sym ''OPT_MCU_SAMD51'')"
    by (simp add: macros_tusb_config [OF guard] defined_def two_hints_macros)
  ultimately show ?thesis
    by (simp add: defined_def two_hints_macros)
qed

text \<open>
  C6, amended. Where more than one platform hint is defined and the build environment does
  not define the MCU, the header takes the first defined hint in the order SAMD, RP2040,
  ESP32. It reports nothing about the hints: all it reports is redefinitions of options that
  it fixes and that the build environment had defined.
\<close>

theorem hint_conflict_by_order:
  assumes "macros s ''_TUSB_CONFIG_H_'' = None"
    and "macros s ''CFG_TUSB_MCU'' = None"
    and "(defined ''ARDUINO_ARCH_SAMD'' s \<and> defined ''ARDUINO_ARCH_RP2040'' s)
       \<or> (defined ''ARDUINO_ARCH_SAMD'' s \<and> defined ''ARDUINO_ARCH_ESP32'' s)
       \<or> (defined ''ARDUINO_ARCH_RP2040'' s \<and> defined ''ARDUINO_ARCH_ESP32'' s)"
  shows "macros (tusb_config s) ''CFG_TUSB_MCU'' =
           Some (if defined ''ARDUINO_ARCH_SAMD'' s then Sym ''OPT_MCU_SAMD51''
                 else Sym ''OPT_MCU_RP2040'')
       \<and> (\<exists>new. diags (tusb_config s) = diags s @ new
             \<and> set new \<subseteq> Redefined ` fixed_options
             \<and> (\<forall>n. Redefined n \<in> set new \<longrightarrow> defined n s))"
proof -
  have "macros (tusb_config s) ''CFG_TUSB_MCU'' =
      Some (if defined ''ARDUINO_ARCH_SAMD'' s then Sym ''OPT_MCU_SAMD51''
            else if defined ''ARDUINO_ARCH_RP2040'' s then Sym ''OPT_MCU_RP2040''
            else if defined ''ARDUINO_ARCH_ESP32'' s then Sym ''OPT_MCU_ESP32S2''
            else Sym ''OPT_MCU_NONE'')"
    using assms(2) by (simp add: macros_tusb_config [OF assms(1)])
  with assms(3) have "macros (tusb_config s) ''CFG_TUSB_MCU'' =
      Some (if defined ''ARDUINO_ARCH_SAMD'' s then Sym ''OPT_MCU_SAMD51''
            else Sym ''OPT_MCU_RP2040'')"
    by (cases "defined ''ARDUINO_ARCH_SAMD'' s"; cases "defined ''ARDUINO_ARCH_RP2040'' s") simp_all
  with new_diags_tusb_config [OF assms(1)] show ?thesis
    by (rule conjI [rotated])
qed

text \<open>
  The build with the SAMD and the RP2040 hint.
\<close>

theorem hint_conflict_by_order_witness:
  "macros two_hints ''_TUSB_CONFIG_H_'' = None
 \<and> macros two_hints ''CFG_TUSB_MCU'' = None
 \<and> defined ''ARDUINO_ARCH_SAMD'' two_hints
 \<and> defined ''ARDUINO_ARCH_RP2040'' two_hints
 \<and> macros (tusb_config two_hints) ''CFG_TUSB_MCU'' = Some (Sym ''OPT_MCU_SAMD51'')"
proof -
  have guard: "macros two_hints ''_TUSB_CONFIG_H_'' = None"
    and mcu: "macros two_hints ''CFG_TUSB_MCU'' = None"
    by (simp_all add: two_hints_macros)
  have samd: "defined ''ARDUINO_ARCH_SAMD'' two_hints"
    and rp: "defined ''ARDUINO_ARCH_RP2040'' two_hints"
    by (simp_all add: defined_def two_hints_macros)
  have both: "(defined ''ARDUINO_ARCH_SAMD'' two_hints \<and> defined ''ARDUINO_ARCH_RP2040'' two_hints)
       \<or> (defined ''ARDUINO_ARCH_SAMD'' two_hints \<and> defined ''ARDUINO_ARCH_ESP32'' two_hints)
       \<or> (defined ''ARDUINO_ARCH_RP2040'' two_hints \<and> defined ''ARDUINO_ARCH_ESP32'' two_hints)"
    using samd rp by simp
  from hint_conflict_by_order [OF guard mcu both]
  have "macros (tusb_config two_hints) ''CFG_TUSB_MCU'' = Some (Sym ''OPT_MCU_SAMD51'')"
    by (simp add: samd)
  with guard mcu samd rp show ?thesis
    by simp
qed

end
